theory Spec2Isabelle
  imports Complex_Main "HOL-Library.Multiset"
begin

section \<open>Book records as the front-ends read them\<close>

text \<open>
  The three front-ends read one JSON array of book records. The fields \<open>subjects\<close> and
  \<open>bans\<close> are tested with \<open>Array.isArray\<close> and with JavaScript truthiness, so a field is
  either absent, some value that is not an array (the map panel handles a plain string
  for \<open>subjects\<close>), or an array. A non-array value is truthy unless it is the empty string.
  Subject labels and the \<open>state\<close> and \<open>district\<close> of a ban are strings; \<open>title\<close>,
  \<open>author\<close>, \<open>ban_status\<close>, \<open>date\<close> and \<open>popularityLevel\<close> are optional.
\<close>

datatype 'a field = Absent | Scalar string | Arr "'a list"

record ban =
  state :: string
  district :: string
  ban_status :: "string option"
  date :: "string option"

record book =
  book_id :: string
  title :: "string option"
  author :: "string option"
  subjects :: "string field"
  bans :: "ban field"
  popularityLevel :: "string option"

text \<open>\<open>Array.isArray(v)\<close> and the truthiness of a field (\<open>!v\<close> is its negation).\<close>

fun isArray :: "'a field \<Rightarrow> bool" where
  "isArray (Arr _) = True"
| "isArray _ = False"

fun truthy :: "'a field \<Rightarrow> bool" where
  "truthy Absent = False"
| "truthy (Scalar s) = (s \<noteq> [])"
| "truthy (Arr _) = True"

text \<open>The elements of a field that is an array; nothing otherwise.\<close>

fun elems :: "'a field \<Rightarrow> 'a list" where
  "elems (Arr xs) = xs"
| "elems _ = []"

section \<open>Strings: \<open>toLowerCase\<close> and \<open>includes\<close>\<close>

text \<open>
  \<open>String.prototype.toLowerCase\<close> applies the case mapping of the Unicode tables of the
  JavaScript engine, which are no part of the repository. The search clause therefore
  takes the function as a parameter, written \<open>lc\<close>, and so does everything that runs
  the filter: each statement below holds for every such function, the engine's own
  included. \<open>asciiLower\<close>, which agrees with \<open>toLowerCase\<close> on strings of ASCII
  characters, stands for it where an example is evaluated. \<open>includesStr\<close> is the
  substring test of \<open>String.prototype.includes\<close>.
\<close>

definition lowerChar :: "char \<Rightarrow> char" where
  "lowerChar c =
     (let n = (of_char c :: nat)
      in if 65 \<le> n \<and> n \<le> 90 then char_of (n + 32) else c)"

definition asciiLower :: "string \<Rightarrow> string" where
  "asciiLower s = map lowerChar s"

fun startsWith :: "string \<Rightarrow> string \<Rightarrow> bool" where
  "startsWith s [] = True"
| "startsWith [] (q # qs) = False"
| "startsWith (c # cs) (q # qs) = (c = q \<and> startsWith cs qs)"

fun includesStr :: "string \<Rightarrow> string \<Rightarrow> bool" where
  "includesStr [] q = (q = [])"
| "includesStr (c # cs) q = (startsWith (c # cs) q \<or> includesStr cs q)"

section \<open>The book browser (apps/explore/src/App.vue)\<close>

subsection \<open>Selection state\<close>

text \<open>
  The refs of the component that the filter, the pagination and the handlers read and
  write. \<open>currentPage\<close> is a JavaScript number that the page buttons increment and
  decrement, hence an \<open>int\<close>.
\<close>

record explore_state =
  selectedSubjects :: "string list"
  selectedStates :: "string list"
  selectedDistricts :: "string list"
  searchQuery :: string
  currentPage :: int

definition itemsPerPage :: nat where
  "itemsPerPage = 100"

subsection \<open>filteredBooks\<close>

text \<open>
  \<open>book.title?.toLowerCase().includes(query) || book.author?.toLowerCase().includes(query)\<close>:
  a missing title or author makes its disjunct \<open>undefined\<close>, which is falsy.
\<close>

definition matchesSearch :: "(string \<Rightarrow> string) \<Rightarrow> string \<Rightarrow> book \<Rightarrow> bool" where
  "matchesSearch lc q b =
     (let query = lc q
      in (case title b of None \<Rightarrow> False | Some t \<Rightarrow> includesStr (lc t) query)
       \<or> (case author b of None \<Rightarrow> False | Some a \<Rightarrow> includesStr (lc a) query))"

text \<open>The display form of a ban's state: \<open>ban.state === 'Nation' ? 'DoDEA' : ban.state\<close>.\<close>

definition normState :: "ban \<Rightarrow> string" where
  "normState bn = (if state bn = ''Nation'' then ''DoDEA'' else state bn)"

text \<open>
  The three facet clauses, each with its \<open>Array.isArray\<close> guard; \<open>every\<close> and \<open>some\<close>
  are \<open>list_all\<close> and \<open>list_ex\<close>.
\<close>

definition hasAllSubjects :: "string list \<Rightarrow> book \<Rightarrow> bool" where
  "hasAllSubjects sel b =
     (case subjects b of
        Arr subs \<Rightarrow> list_all (\<lambda>subject. subject \<in> set subs) sel
      | _ \<Rightarrow> False)"

definition hasAllStates :: "string list \<Rightarrow> book \<Rightarrow> bool" where
  "hasAllStates sel b =
     (case bans b of
        Arr bs \<Rightarrow> list_all (\<lambda>st. list_ex (\<lambda>bn. normState bn = st) bs) sel
      | _ \<Rightarrow> False)"

definition hasAllDistricts :: "string list \<Rightarrow> book \<Rightarrow> bool" where
  "hasAllDistricts sel b =
     (case bans b of
        Arr bs \<Rightarrow> list_all (\<lambda>d. list_ex (\<lambda>bn. district bn = d) bs) sel
      | _ \<Rightarrow> False)"

text \<open>
  The callback of \<open>books.value.filter\<close>: four guarded clauses, each returning \<open>false\<close>
  early, in the order of the source.
\<close>

definition filterCallback :: "(string \<Rightarrow> string) \<Rightarrow> explore_state \<Rightarrow> book \<Rightarrow> bool" where
  "filterCallback lc st b =
     (if searchQuery st \<noteq> [] \<and> \<not> matchesSearch lc (searchQuery st) b then False
      else if selectedSubjects st \<noteq> [] \<and> \<not> hasAllSubjects (selectedSubjects st) b then False
      else if selectedStates st \<noteq> [] \<and> \<not> hasAllStates (selectedStates st) b then False
      else if selectedDistricts st \<noteq> [] \<and> \<not> hasAllDistricts (selectedDistricts st) b then False
      else True)"

text \<open>
  \<open>Array.prototype.sort\<close> with a comparator is a stable sort (ECMAScript 2019): with a
  consistent comparator its result is the one of a stable insertion sort, which places
  an element before the first element it does not compare greater than.
\<close>

fun insertCmp :: "('a \<Rightarrow> 'a \<Rightarrow> int) \<Rightarrow> 'a \<Rightarrow> 'a list \<Rightarrow> 'a list" where
  "insertCmp cmp x [] = [x]"
| "insertCmp cmp x (y # ys) =
     (if cmp x y \<le> 0 then x # y # ys else y # insertCmp cmp x ys)"

fun sortCmp :: "('a \<Rightarrow> 'a \<Rightarrow> int) \<Rightarrow> 'a list \<Rightarrow> 'a list" where
  "sortCmp cmp [] = []"
| "sortCmp cmp (x # xs) = insertCmp cmp x (sortCmp cmp xs)"

text \<open>\<open>Array.isArray(a.bans) ? a.bans.length : 0\<close> and the comparator \<open>bBans - aBans\<close>.\<close>

definition banCount :: "book \<Rightarrow> nat" where
  "banCount b = (case bans b of Arr bs \<Rightarrow> length bs | _ \<Rightarrow> 0)"

definition compareBans :: "book \<Rightarrow> book \<Rightarrow> int" where
  "compareBans a b = int (banCount b) - int (banCount a)"

definition filteredBooks :: "(string \<Rightarrow> string) \<Rightarrow> explore_state \<Rightarrow> book list \<Rightarrow> book list" where
  "filteredBooks lc st books = sortCmp compareBans (filter (filterCallback lc st) books)"

subsection \<open>Pagination\<close>

text \<open>
  \<open>Math.ceil(filteredBooks.value.length / itemsPerPage)\<close>; the quotient of two array
  lengths is far inside the range where the division of numbers is exact enough for
  \<open>Math.ceil\<close> to return the mathematical ceiling.
\<close>

definition totalPages :: "(string \<Rightarrow> string) \<Rightarrow> explore_state \<Rightarrow> book list \<Rightarrow> int" where
  "totalPages lc st books = \<lceil>real (length (filteredBooks lc st books)) / real itemsPerPage\<rceil>"

text \<open>
  \<open>Array.prototype.slice(start, end)\<close>: a negative index counts from the end, both
  indices are clamped to the array, and an empty range gives the empty array.
\<close>

definition slice :: "'a list \<Rightarrow> int \<Rightarrow> int \<Rightarrow> 'a list" where
  "slice xs start fin =
     (let len = int (length xs);
          k = (if start < 0 then max (len + start) 0 else min start len);
          final = (if fin < 0 then max (len + fin) 0 else min fin len)
      in take (nat (final - k)) (drop (nat k) xs))"

definition paginatedBooks :: "(string \<Rightarrow> string) \<Rightarrow> explore_state \<Rightarrow> book list \<Rightarrow> book list" where
  "paginatedBooks lc st books =
     (let start = (currentPage st - 1) * int itemsPerPage;
          fin = start + int itemsPerPage
      in slice (filteredBooks lc st books) start fin)"

definition resetPage :: "explore_state \<Rightarrow> explore_state" where
  "resetPage st = st\<lparr>currentPage := 1\<rparr>"

subsection \<open>Facet counts\<close>

text \<open>
  \<open>new Set(xs)\<close> adds the elements one by one and keeps the first occurrence of each;
  \<open>forEach\<close> visits them in that order.
\<close>

definition setAdd :: "'a list \<Rightarrow> 'a \<Rightarrow> 'a list" where
  "setAdd acc x = (if x \<in> set acc then acc else acc @ [x])"

definition newSet :: "'a list \<Rightarrow> 'a list" where
  "newSet xs = foldl setAdd [] xs"

text \<open>
  A counts object is created as \<open>{}\<close>, a plain object: it has the keys the code
  stores and, behind them, the properties every object inherits from
  \<open>Object.prototype\<close>. The values that \<open>counts[k]\<close> can yield are \<open>undefined\<close>, a
  number, \<open>NaN\<close>, a string, or an inherited property (a function, or the prototype
  itself for \<open>__proto__\<close>). The only strings that arise are the text of an inherited
  property followed by digits 1, which \<open>Text n\<close> stands for, \<open>n\<close> being the number of
  digits; such a string is never empty.
\<close>

datatype jsval = Undefined | Num nat | NaN | Text nat | Inherited

definition objectPrototypeKeys :: "string list" where
  "objectPrototypeKeys =
     [''constructor'', ''__defineGetter__'', ''__defineSetter__'', ''hasOwnProperty'',
      ''__lookupGetter__'', ''__lookupSetter__'', ''isPrototypeOf'',
      ''propertyIsEnumerable'', ''toString'', ''valueOf'', ''__proto__'',
      ''toLocaleString'']"

type_synonym counts = "string \<rightharpoonup> jsval"

text \<open>\<open>counts[k]\<close>: the object's own key first, then the prototype.\<close>

definition getProp :: "counts \<Rightarrow> string \<Rightarrow> jsval" where
  "getProp cs k =
     (case cs k of
        Some v \<Rightarrow> v
      | None \<Rightarrow> (if k \<in> set objectPrototypeKeys then Inherited else Undefined))"

text \<open>
  \<open>counts[k] = v\<close> for a number or a string \<open>v\<close>: the inherited setter of \<open>__proto__\<close>
  ignores a value that is neither an object nor \<open>null\<close>; every other key is stored.
\<close>

definition setProp :: "counts \<Rightarrow> string \<Rightarrow> jsval \<Rightarrow> counts" where
  "setProp cs k v = (if k = ''__proto__'' then cs else cs(k \<mapsto> v))"

fun truthyVal :: "jsval \<Rightarrow> bool" where
  "truthyVal Undefined = False"
| "truthyVal (Num n) = (n \<noteq> 0)"
| "truthyVal NaN = False"
| "truthyVal (Text n) = True"
| "truthyVal Inherited = True"

text \<open>\<open>v || 0\<close> and \<open>v + 1\<close>; adding 1 to a string or to an object appends the digit 1.\<close>

definition orZero :: "jsval \<Rightarrow> jsval" where
  "orZero v = (if truthyVal v then v else Num 0)"

fun plusOne :: "jsval \<Rightarrow> jsval" where
  "plusOne Undefined = NaN"
| "plusOne (Num n) = Num (n + 1)"
| "plusOne NaN = NaN"
| "plusOne (Text n) = Text (n + 1)"
| "plusOne Inherited = Text 1"

text \<open>
  \<open>counts[k] = (counts[k] || 0) + 1\<close>. The three callbacks of
  \<open>filteredBooks.value.forEach\<close> are \<open>subjectStep\<close>, \<open>stateStep\<close> and \<open>districtStep\<close>.
\<close>

definition bump :: "counts \<Rightarrow> string \<Rightarrow> counts" where
  "bump cs k = setProp cs k (plusOne (orZero (getProp cs k)))"

definition subjectStep :: "counts \<Rightarrow> book \<Rightarrow> counts" where
  "subjectStep cs b =
     (case subjects b of
        Arr subs \<Rightarrow> foldl bump cs (newSet subs)
      | _ \<Rightarrow> cs)"

definition stateStep :: "counts \<Rightarrow> book \<Rightarrow> counts" where
  "stateStep cs b =
     (case bans b of
        Arr bs \<Rightarrow> foldl bump cs (newSet (map normState bs))
      | _ \<Rightarrow> cs)"

definition districtStep :: "counts \<Rightarrow> book \<Rightarrow> counts" where
  "districtStep cs b =
     (case bans b of
        Arr bs \<Rightarrow> foldl bump cs (newSet (map district bs))
      | _ \<Rightarrow> cs)"

text \<open>
  The three computed counts run their callback over \<open>filteredBooks.value\<close>, starting
  from the empty object. The template reads a count as \<open>counts[v] || 0\<close>.
\<close>

definition subjectCounts :: "(string \<Rightarrow> string) \<Rightarrow> explore_state \<Rightarrow> book list \<Rightarrow> counts" where
  "subjectCounts lc st books = foldl subjectStep Map.empty (filteredBooks lc st books)"

definition stateCounts :: "(string \<Rightarrow> string) \<Rightarrow> explore_state \<Rightarrow> book list \<Rightarrow> counts" where
  "stateCounts lc st books = foldl stateStep Map.empty (filteredBooks lc st books)"

definition districtCounts :: "(string \<Rightarrow> string) \<Rightarrow> explore_state \<Rightarrow> book list \<Rightarrow> counts" where
  "districtCounts lc st books = foldl districtStep Map.empty (filteredBooks lc st books)"

subsection \<open>Handlers that change the selection\<close>

text \<open>
  \<open>indexOf\<close> returns the first position of a value or \<open>-1\<close>; \<open>splice(index, 1)\<close>
  removes the element at a position that \<open>indexOf\<close> found.
\<close>

fun indexOf :: "'a list \<Rightarrow> 'a \<Rightarrow> int" where
  "indexOf [] v = -1"
| "indexOf (x # xs) v =
     (if x = v then 0 else (let i = indexOf xs v in if i = -1 then -1 else i + 1))"

definition splice1 :: "'a list \<Rightarrow> int \<Rightarrow> 'a list" where
  "splice1 xs i = take (nat i) xs @ drop (nat i + 1) xs"

definition toggle :: "string list \<Rightarrow> string \<Rightarrow> string list" where
  "toggle sel v =
     (let index = indexOf sel v in if index > -1 then splice1 sel index else sel @ [v])"

definition remove :: "string list \<Rightarrow> string \<Rightarrow> string list" where
  "remove sel v =
     (let index = indexOf sel v in if index > -1 then splice1 sel index else sel)"

definition toggleSubject :: "string \<Rightarrow> explore_state \<Rightarrow> explore_state" where
  "toggleSubject v st = resetPage (st\<lparr>selectedSubjects := toggle (selectedSubjects st) v\<rparr>)"

definition toggleState :: "string \<Rightarrow> explore_state \<Rightarrow> explore_state" where
  "toggleState v st = resetPage (st\<lparr>selectedStates := toggle (selectedStates st) v\<rparr>)"

definition toggleDistrict :: "string \<Rightarrow> explore_state \<Rightarrow> explore_state" where
  "toggleDistrict v st = resetPage (st\<lparr>selectedDistricts := toggle (selectedDistricts st) v\<rparr>)"

definition removeSubject :: "string \<Rightarrow> explore_state \<Rightarrow> explore_state" where
  "removeSubject v st = resetPage (st\<lparr>selectedSubjects := remove (selectedSubjects st) v\<rparr>)"

definition removeState :: "string \<Rightarrow> explore_state \<Rightarrow> explore_state" where
  "removeState v st = resetPage (st\<lparr>selectedStates := remove (selectedStates st) v\<rparr>)"

definition removeDistrict :: "string \<Rightarrow> explore_state \<Rightarrow> explore_state" where
  "removeDistrict v st = resetPage (st\<lparr>selectedDistricts := remove (selectedDistricts st) v\<rparr>)"

text \<open>
  The search box: \<open>v-model="searchQuery"\<close> stores the typed text and \<open>@input="resetPage"\<close>
  runs on the same event.
\<close>

definition inputSearch :: "string \<Rightarrow> explore_state \<Rightarrow> explore_state" where
  "inputSearch q st = resetPage (st\<lparr>searchQuery := q\<rparr>)"

definition clearFilters :: "explore_state \<Rightarrow> explore_state" where
  "clearFilters st =
     resetPage (st\<lparr>selectedSubjects := [], selectedStates := [],
                   selectedDistricts := [], searchQuery := []\<rparr>)"

text \<open>The user actions that change the filter, and the handler each one runs.\<close>

datatype filter_op =
    ToggleSubject string | ToggleState string | ToggleDistrict string
  | RemoveSubject string | RemoveState string | RemoveDistrict string
  | InputSearch string | ClearFilters

fun applyOp :: "filter_op \<Rightarrow> explore_state \<Rightarrow> explore_state" where
  "applyOp (ToggleSubject v) st = toggleSubject v st"
| "applyOp (ToggleState v) st = toggleState v st"
| "applyOp (ToggleDistrict v) st = toggleDistrict v st"
| "applyOp (RemoveSubject v) st = removeSubject v st"
| "applyOp (RemoveState v) st = removeState v st"
| "applyOp (RemoveDistrict v) st = removeDistrict v st"
| "applyOp (InputSearch q) st = inputSearch q st"
| "applyOp ClearFilters st = clearFilters st"

section \<open>The map's info panel (apps/map)\<close>

text \<open>
  The panel shows the books banned at the selected location (\<open>bannedBooks\<close>) and has
  three filters of its own. The panel has no pagination and no state or district facet.
\<close>

record panel =
  bannedBooks :: "book list"
  selectedSubjects_panel :: "string list"
  selectedBanStatus :: "string list"
  selectedPopularityLevels :: "string list"

text \<open>
  \<open>Array.isArray(book.subjects) ? book.subjects : [book.subjects]\<close>, evaluated only where
  \<open>book.subjects\<close> is truthy.
\<close>

fun subjectArray :: "string field \<Rightarrow> string list" where
  "subjectArray (Arr subs) = subs"
| "subjectArray (Scalar s) = [s]"
| "subjectArray Absent = []"

text \<open>
  The counting loop of \<open>allSubjects\<close>, over \<open>this.bannedBooks\<close>. The computed property
  then lists the entries by count and, among equal counts, by \<open>localeCompare\<close>; that
  ordering depends on the locale and is not modelled.
\<close>

definition allSubjectsStep :: "counts \<Rightarrow> book \<Rightarrow> counts" where
  "allSubjectsStep cs b =
     (if truthy (subjects b) then foldl bump cs (subjectArray (subjects b)) else cs)"

definition allSubjects_counts :: "panel \<Rightarrow> counts" where
  "allSubjects_counts p = foldl allSubjectsStep Map.empty (bannedBooks p)"

text \<open>
  The panel's \<open>filteredBooks\<close>. \<open>book.bans && book.bans.some(...)\<close> calls \<open>some\<close> on any
  truthy value, so a truthy \<open>bans\<close> that is not an array raises a TypeError, which
  aborts the whole \<open>filter\<close>.
\<close>

datatype error = TypeError

definition hasSubject :: "string list \<Rightarrow> book \<Rightarrow> bool" where
  "hasSubject sel b =
     (truthy (subjects b) \<and> list_ex (\<lambda>s. s \<in> set sel) (subjectArray (subjects b)))"

definition hasBanStatus :: "string list \<Rightarrow> book \<Rightarrow> error + bool" where
  "hasBanStatus sel b =
     (case bans b of
        Absent \<Rightarrow> Inr False
      | Scalar s \<Rightarrow> (if s = [] then Inr False else Inl TypeError)
      | Arr bs \<Rightarrow>
          Inr (list_ex (\<lambda>bn. case ban_status bn of None \<Rightarrow> False
                                                  | Some s \<Rightarrow> s \<in> set sel) bs))"

definition hasPopularity :: "string list \<Rightarrow> book \<Rightarrow> bool" where
  "hasPopularity sel b =
     (case popularityLevel b of None \<Rightarrow> False | Some l \<Rightarrow> l \<in> set sel)"

definition panelCallback :: "panel \<Rightarrow> book \<Rightarrow> error + bool" where
  "panelCallback p b =
     (if selectedSubjects_panel p \<noteq> [] \<and> \<not> hasSubject (selectedSubjects_panel p) b
      then Inr False
      else
        (case (if selectedBanStatus p \<noteq> [] then hasBanStatus (selectedBanStatus p) b
               else Inr True) of
           Inl e \<Rightarrow> Inl e
         | Inr False \<Rightarrow> Inr False
         | Inr True \<Rightarrow>
             (if selectedPopularityLevels p \<noteq> []
                 \<and> \<not> hasPopularity (selectedPopularityLevels p) b
              then Inr False else Inr True)))"

fun filterE :: "('a \<Rightarrow> error + bool) \<Rightarrow> 'a list \<Rightarrow> error + 'a list" where
  "filterE f [] = Inr []"
| "filterE f (x # xs) =
     (case f x of
        Inl e \<Rightarrow> Inl e
      | Inr keep \<Rightarrow>
          (case filterE f xs of
             Inl e \<Rightarrow> Inl e
           | Inr ys \<Rightarrow> Inr (if keep then x # ys else ys)))"

definition filteredBooks_panel :: "panel \<Rightarrow> error + book list" where
  "filteredBooks_panel p = filterE (panelCallback p) (bannedBooks p)"

section \<open>The subject-by-geography report (apps/by_state)\<close>

text \<open>
  \<open>analyzeData\<close> builds, per state and per district of a state, the number of ban events
  and the number of ban events per subject. \<open>!ban.state\<close> and \<open>if (subject)\<close> test a
  string for emptiness. \<open>stateData\<close> and each \<open>districts\<close> are plain objects too: for a
  state or district that names an inherited property and is not yet a key,
  \<open>!stateData[state]\<close> is false, no entry is created, and the inherited value is used in
  its place. It has no \<open>districts\<close> and no \<open>subjectCounts\<close>, so reading a key of those
  raises a TypeError, which ends \<open>analyzeData\<close>. Its \<open>totalBans\<close> can be incremented
  without an error; that write lands on the inherited object, not in \<open>stateData\<close>.
\<close>

record districtEntry =
  d_subjectCounts :: counts
  d_totalBans :: nat

record stateEntry =
  s_districts :: "string \<rightharpoonup> districtEntry"
  s_subjectCounts :: counts
  s_totalBans :: nat

type_synonym stateData = "string \<rightharpoonup> stateEntry"

definition newState :: stateEntry where
  "newState = \<lparr>s_districts = Map.empty, s_subjectCounts = Map.empty, s_totalBans = 0\<rparr>"

definition newDistrict :: districtEntry where
  "newDistrict = \<lparr>d_subjectCounts = Map.empty, d_totalBans = 0\<rparr>"

definition countSubject :: "counts \<times> counts \<Rightarrow> string \<Rightarrow> counts \<times> counts" where
  "countSubject acc subject =
     (if subject \<noteq> [] then (bump (fst acc) subject, bump (snd acc) subject) else acc)"

definition analyzeBan :: "string list \<Rightarrow> stateData \<Rightarrow> ban \<Rightarrow> error + stateData" where
  "analyzeBan subs sd bn =
     (if state bn = [] \<or> district bn = [] then Inr sd
      else
        (let st = state bn; d = district bn
         in if sd st = None \<and> st \<in> set objectPrototypeKeys then Inl TypeError
            else
              (let e0 = (case sd st of None \<Rightarrow> newState | Some e \<Rightarrow> e)
               in if s_districts e0 d = None \<and> d \<in> set objectPrototypeKeys
                  then (if list_ex (\<lambda>subject. subject \<noteq> []) subs then Inl TypeError
                        else Inr (sd(st \<mapsto> e0\<lparr>s_totalBans := s_totalBans e0 + 1\<rparr>)))
                  else
                    (let d0 = (case s_districts e0 d of None \<Rightarrow> newDistrict | Some x \<Rightarrow> x);
                         acc = foldl countSubject (s_subjectCounts e0, d_subjectCounts d0) subs;
                         d1 = \<lparr>d_subjectCounts = snd acc, d_totalBans = d_totalBans d0 + 1\<rparr>;
                         e1 = \<lparr>s_districts = (s_districts e0)(d \<mapsto> d1),
                               s_subjectCounts = fst acc,
                               s_totalBans = s_totalBans e0 + 1\<rparr>
                     in Inr (sd(st \<mapsto> e1))))))"

text \<open>A \<open>forEach\<close> whose callback can raise: the first error ends the loop.\<close>

fun forEachE :: "('s \<Rightarrow> 'a \<Rightarrow> error + 's) \<Rightarrow> 's \<Rightarrow> 'a list \<Rightarrow> error + 's" where
  "forEachE f s [] = Inr s"
| "forEachE f s (x # xs) =
     (case f s x of Inl e \<Rightarrow> Inl e | Inr s' \<Rightarrow> forEachE f s' xs)"

definition analyzeBook :: "stateData \<Rightarrow> book \<Rightarrow> error + stateData" where
  "analyzeBook sd b =
     (if \<not> truthy (bans b) \<or> \<not> isArray (bans b) then Inr sd
      else if \<not> truthy (subjects b) \<or> \<not> isArray (subjects b) then Inr sd
      else forEachE (analyzeBan (elems (subjects b))) sd (elems (bans b)))"

definition analyzeData :: "book list \<Rightarrow> error + stateData" where
  "analyzeData books = forEachE analyzeBook Map.empty books"

section \<open>Example data\<close>

text \<open>
  The initial selection of the browser (the initial values of its refs), and small
  books and bans for the worked examples: a book with the given subjects and bans and
  no other field, a ban with only a state and a district.
\<close>

definition initialState :: explore_state where
  "initialState =
     \<lparr>selectedSubjects = [], selectedStates = [], selectedDistricts = [],
      searchQuery = [], currentPage = 1\<rparr>"

definition mkBan :: "string \<Rightarrow> string \<Rightarrow> ban" where
  "mkBan s d = \<lparr>state = s, district = d, ban_status = None, date = None\<rparr>"

definition mkBook :: "string \<Rightarrow> string field \<Rightarrow> ban field \<Rightarrow> book" where
  "mkBook i subs bs =
     \<lparr>book_id = i, title = None, author = None, subjects = subs, bans = bs,
      popularityLevel = None\<rparr>"

definition bookA :: book where
  "bookA = mkBook ''A'' (Arr [''Fiction'']) Absent"

definition bookB :: book where
  "bookB = mkBook ''B'' (Arr [''Fiction'', ''LGBTQ'']) Absent"

text \<open>The map panel showing the two books of the example, with a subject selection.\<close>

definition examplePanel :: "string list \<Rightarrow> panel" where
  "examplePanel sel =
     \<lparr>bannedBooks = [bookA, bookB], selectedSubjects_panel = sel,
      selectedBanStatus = [], selectedPopularityLevels = []\<rparr>"

section \<open>Auxiliary facts\<close>

subsection \<open>The stable sort by ban count\<close>

lemma compareBans_le0: "compareBans x y \<le> 0 \<longleftrightarrow> banCount y \<le> banCount x"
  by (simp add: compareBans_def)

lemma mset_insertCmp: "mset (insertCmp cmp x xs) = add_mset x (mset xs)"
  by (induction xs) auto

lemma mset_sortCmp: "mset (sortCmp cmp xs) = mset xs"
  by (induction xs) (auto simp: mset_insertCmp)

lemma set_insertCmp: "set (insertCmp cmp x xs) = insert x (set xs)"
  by (induction xs) auto

lemma set_sortCmp: "set (sortCmp cmp xs) = set xs"
  by (induction xs) (auto simp: set_insertCmp)

lemma desc_insertCmp:
  "sorted_wrt (\<lambda>a b. banCount b \<le> banCount a) xs \<Longrightarrow>
   sorted_wrt (\<lambda>a b. banCount b \<le> banCount a) (insertCmp compareBans x xs)"
  by (induction xs) (auto simp: compareBans_le0 set_insertCmp)

lemma desc_sortCmp: "sorted_wrt (\<lambda>a b. banCount b \<le> banCount a) (sortCmp compareBans xs)"
  by (induction xs) (auto simp: desc_insertCmp)

lemma filter_insertCmp:
  "sorted_wrt (\<lambda>a b. banCount b \<le> banCount a) xs \<Longrightarrow>
   filter (\<lambda>b. banCount b = k) (insertCmp compareBans x xs) =
     (if banCount x = k then x # filter (\<lambda>b. banCount b = k) xs
      else filter (\<lambda>b. banCount b = k) xs)"
  by (induction xs) (auto simp: compareBans_le0)

lemma filter_sortCmp:
  "filter (\<lambda>b. banCount b = k) (sortCmp compareBans xs) = filter (\<lambda>b. banCount b = k) xs"
  by (induction xs) (auto simp: filter_insertCmp desc_sortCmp)

lemma sortCmp_desc_id:
  "sorted_wrt (\<lambda>a b. banCount b \<le> banCount a) xs \<Longrightarrow> sortCmp compareBans xs = xs"
proof (induction xs)
  case Nil
  then show ?case by simp
next
  case (Cons x xs)
  then have "sortCmp compareBans xs = xs" by simp
  moreover have "insertCmp compareBans x xs = x # xs"
    using Cons.prems by (cases xs) (auto simp: compareBans_le0)
  ultimately show ?case by simp
qed

lemma set_filteredBooks: "set (filteredBooks lc st bs) = {b \<in> set bs. filterCallback lc st b}"
  by (auto simp: filteredBooks_def set_sortCmp)

lemma mset_filteredBooks: "mset (filteredBooks lc st bs) = mset (filter (filterCallback lc st) bs)"
  by (simp add: filteredBooks_def mset_sortCmp)

lemma length_filter_filteredBooks:
  "length (filter P (filteredBooks lc st bs)) =
     length (filter (\<lambda>b. filterCallback lc st b \<and> P b) bs)"
proof -
  have "length (filter P (filteredBooks lc st bs)) =
          size (filter_mset P (mset (filteredBooks lc st bs)))"
    by (simp flip: mset_filter)
  also have "\<dots> = size (filter_mset P (mset (filter (filterCallback lc st) bs)))"
    by (simp add: mset_filteredBooks)
  also have "\<dots> = length (filter P (filter (filterCallback lc st) bs))"
    by (simp flip: mset_filter)
  finally show ?thesis by (simp add: conj_commute)
qed

subsection \<open>Unfolding the example data\<close>

lemmas example_defs = initialState_def mkBook_def mkBan_def bookA_def bookB_def examplePanel_def

section \<open>Sorting, pass-through and idempotence of the filter\<close>

text \<open>
  C5. For every book list and selection, the books that survive the filter come out
  sorted by descending ban count, where the ban count of a book is the length of its
  \<open>bans\<close> array and 0 when \<open>bans\<close> is absent or not an array; the output holds exactly
  the surviving books, and the books of any one ban count keep their input order.
\<close>

theorem filteredBooks_sorted_stable:
  "sorted_wrt (\<lambda>a b. banCount b \<le> banCount a) (filteredBooks lc st bs)
   \<and> mset (filteredBooks lc st bs) = mset (filter (filterCallback lc st) bs)
   \<and> filter (\<lambda>b. banCount b = k) (filteredBooks lc st bs)
       = filter (\<lambda>b. banCount b = k) (filter (filterCallback lc st) bs)
   \<and> banCount b = length (elems (bans b))"
proof -
  have "banCount b = length (elems (bans b))"
    by (cases "bans b") (simp_all add: banCount_def)
  then show ?thesis
    by (simp add: filteredBooks_def desc_sortCmp mset_sortCmp filter_sortCmp)
qed

theorem filteredBooks_sorted_stable_witness:
  "filter (\<lambda>b. banCount b = 1)
     (filteredBooks asciiLower initialState
        [mkBook ''x'' Absent (Arr [mkBan ''Texas'' ''d1'']),
         mkBook ''y'' Absent (Arr [mkBan ''Texas'' ''d1'', mkBan ''Utah'' ''d2'']),
         mkBook ''z'' Absent (Arr [mkBan ''Iowa'' ''d3''])])
     = [mkBook ''x'' Absent (Arr [mkBan ''Texas'' ''d1'']),
        mkBook ''z'' Absent (Arr [mkBan ''Iowa'' ''d3''])]
   \<and> banCount (mkBook ''w'' Absent (Scalar ''none'')) = 0"
  using filteredBooks_sorted_stable
          [of asciiLower initialState
              "[mkBook ''x'' Absent (Arr [mkBan ''Texas'' ''d1'']),
                mkBook ''y'' Absent (Arr [mkBan ''Texas'' ''d1'', mkBan ''Utah'' ''d2'']),
                mkBook ''z'' Absent (Arr [mkBan ''Iowa'' ''d3''])]"
              1 "mkBook ''w'' Absent (Scalar ''none'')"]
  by (simp add: example_defs filterCallback_def banCount_def)

text \<open>
  C8. When no subject, state or district is selected and the search query is empty,
  the filter callback accepts every book, so \<open>filter\<close> returns the whole input in its
  order, and the result of \<open>filteredBooks\<close> is that input sorted by ban count.
\<close>

theorem empty_selection_passes_all:
  assumes "selectedSubjects st = []" and "selectedStates st = []"
    and "selectedDistricts st = []" and "searchQuery st = []"
  shows "filterCallback lc st b
         \<and> filter (filterCallback lc st) bs = bs
         \<and> filteredBooks lc st bs = sortCmp compareBans bs"
proof -
  have every: "filterCallback lc st x" for x
    using assms by (simp add: filterCallback_def)
  then have "filter (filterCallback lc st) bs = bs" by simp
  with every show ?thesis by (simp add: filteredBooks_def)
qed

theorem empty_selection_passes_all_witness:
  "selectedSubjects initialState = [] \<and> selectedStates initialState = []
   \<and> selectedDistricts initialState = [] \<and> searchQuery initialState = []
   \<and> filterCallback asciiLower initialState bookA
   \<and> filter (filterCallback asciiLower initialState) [bookA, bookB] = [bookA, bookB]
   \<and> filteredBooks asciiLower initialState [bookA, bookB] = [bookA, bookB]"
proof -
  have h: "selectedSubjects initialState = []" "selectedStates initialState = []"
    "selectedDistricts initialState = []" "searchQuery initialState = []"
    by (simp_all add: initialState_def)
  have "sortCmp compareBans [bookA, bookB] = [bookA, bookB]"
    by (simp add: compareBans_def banCount_def example_defs)
  with h show ?thesis
    using empty_selection_passes_all [OF h, of asciiLower bookA "[bookA, bookB]"]
    by (simp add: filterCallback_def)
qed

text \<open>
  C9. For every book list and every selection, filtering the output of the filter
  again with the same selection gives the same list, element by element and in the
  same order.
\<close>

theorem filteredBooks_idempotent:
  "filteredBooks lc st (filteredBooks lc st bs) = filteredBooks lc st bs"
proof -
  let ?fb = "filteredBooks lc st bs"
  have "\<forall>b\<in>set ?fb. filterCallback lc st b"
    by (simp add: set_filteredBooks)
  then have "filter (filterCallback lc st) ?fb = ?fb" by simp
  moreover have "sorted_wrt (\<lambda>a b. banCount b \<le> banCount a) ?fb"
    by (simp add: filteredBooks_def desc_sortCmp)
  then have "sortCmp compareBans ?fb = ?fb" by (rule sortCmp_desc_id)
  ultimately show ?thesis
    by (simp add: filteredBooks_def [of lc st ?fb])
qed

theorem filteredBooks_idempotent_witness:
  "filteredBooks asciiLower (initialState\<lparr>selectedSubjects := [''LGBTQ'']\<rparr>)
     (filteredBooks asciiLower (initialState\<lparr>selectedSubjects := [''LGBTQ'']\<rparr>) [bookA, bookB])
   = [bookB]"
  using filteredBooks_idempotent [of asciiLower
                                     "initialState\<lparr>selectedSubjects := [''LGBTQ'']\<rparr>"
                                     "[bookA, bookB]"]
  by (simp add: filteredBooks_def filterCallback_def hasAllSubjects_def example_defs)

section \<open>Facet counts\<close>

subsection \<open>Sets\<close>

lemma set_foldl_setAdd: "set (foldl setAdd acc xs) = set acc \<union> set xs"
  by (induction xs arbitrary: acc) (auto simp: setAdd_def)

lemma distinct_foldl_setAdd: "distinct acc \<Longrightarrow> distinct (foldl setAdd acc xs)"
  by (induction xs arbitrary: acc) (auto simp: setAdd_def)

lemma set_newSet: "set (newSet xs) = set xs"
  by (simp add: newSet_def set_foldl_setAdd)

lemma distinct_newSet: "distinct (newSet xs)"
  by (simp add: newSet_def distinct_foldl_setAdd)

subsection \<open>One increment\<close>

lemma proto_is_inherited: "''__proto__'' \<in> set objectPrototypeKeys"
  by (simp add: objectPrototypeKeys_def)

lemma bump_other: "v \<noteq> k \<Longrightarrow> bump cs k v = cs v"
  by (simp add: bump_def setProp_def)

lemma getProp_bump_other: "v \<noteq> k \<Longrightarrow> getProp (bump cs k) v = getProp cs v"
  by (simp add: getProp_def bump_other)

lemma getProp_bump_same:
  "k \<noteq> ''__proto__'' \<Longrightarrow> getProp (bump cs k) k = plusOne (orZero (getProp cs k))"
  by (simp add: getProp_def bump_def setProp_def)

lemma foldl_bump_untouched: "v \<notin> set ks \<Longrightarrow> foldl bump cs ks v = cs v"
  by (induction ks arbitrary: cs) (auto simp: bump_other)

lemma getProp_foldl_bump_untouched:
  "v \<notin> set ks \<Longrightarrow> getProp (foldl bump cs ks) v = getProp cs v"
  by (simp add: getProp_def foldl_bump_untouched)

text \<open>
  For a key that names an inherited property the increment stores no number: a string
  for \<open>constructor\<close>, nothing at all for \<open>__proto__\<close>.
\<close>

lemma bump_constructor: "getProp (bump Map.empty ''constructor'') ''constructor'' = Text 1"
  by (simp add: bump_def setProp_def getProp_def orZero_def objectPrototypeKeys_def)

lemma bump_proto: "bump cs ''__proto__'' = cs"
  by (simp add: bump_def setProp_def)

text \<open>Over a list without repetitions a key is incremented once or not at all.\<close>

lemma getProp_foldl_bump:
  assumes "v \<noteq> ''__proto__''" and "distinct ks"
  shows "getProp (foldl bump cs ks) v =
           (if v \<in> set ks then plusOne (orZero (getProp cs v)) else getProp cs v)"
  using assms(2)
proof (induction ks arbitrary: cs)
  case Nil
  then show ?case by simp
next
  case (Cons k ks)
  show ?case
  proof (cases "k = v")
    case True
    with Cons.prems have "v \<notin> set ks" by simp
    then have "getProp (foldl bump (bump cs k) ks) v = getProp (bump cs k) v"
      by (rule getProp_foldl_bump_untouched)
    with True assms(1) show ?thesis by (simp add: getProp_bump_same)
  next
    case False
    with Cons show ?thesis by (simp add: getProp_bump_other)
  qed
qed

lemma getProp_bump_newSet:
  "v \<noteq> ''__proto__'' \<Longrightarrow>
   getProp (foldl bump cs (newSet xs)) v =
     (if v \<in> set xs then plusOne (orZero (getProp cs v)) else getProp cs v)"
  using getProp_foldl_bump [of v "newSet xs" cs] by (simp add: distinct_newSet set_newSet)

text \<open>Where the count read is a number, an increment gives the next number.\<close>

lemma orZero_plusOne: "orZero x = Num m \<Longrightarrow> orZero (plusOne (orZero x)) = Num (m + 1)"
  by (simp add: orZero_def)

lemma orZero_Num_Suc: "orZero (Num (Suc m)) = Num (Suc m)"
  by (simp add: orZero_def)

lemma orZero_empty: "v \<notin> set objectPrototypeKeys \<Longrightarrow> orZero (getProp Map.empty v) = Num 0"
  by (simp add: getProp_def orZero_def)

subsection \<open>The three callbacks\<close>

lemma getProp_subjectStep:
  "v \<noteq> ''__proto__'' \<Longrightarrow>
   getProp (subjectStep cs b) v =
     (if v \<in> set (elems (subjects b)) then plusOne (orZero (getProp cs v)) else getProp cs v)"
  by (cases "subjects b") (simp_all add: subjectStep_def getProp_bump_newSet)

lemma getProp_stateStep:
  "v \<noteq> ''__proto__'' \<Longrightarrow>
   getProp (stateStep cs b) v =
     (if v \<in> normState ` set (elems (bans b)) then plusOne (orZero (getProp cs v))
      else getProp cs v)"
  by (cases "bans b") (simp_all add: stateStep_def getProp_bump_newSet)

lemma getProp_districtStep:
  "v \<noteq> ''__proto__'' \<Longrightarrow>
   getProp (districtStep cs b) v =
     (if v \<in> district ` set (elems (bans b)) then plusOne (orZero (getProp cs v))
      else getProp cs v)"
  by (cases "bans b") (simp_all add: districtStep_def getProp_bump_newSet)

lemma num_subjectStep:
  "v \<noteq> ''__proto__'' \<Longrightarrow> orZero (getProp cs v) = Num m \<Longrightarrow>
   orZero (getProp (subjectStep cs b) v) =
     Num (m + (if v \<in> set (elems (subjects b)) then 1 else 0))"
  by (simp add: getProp_subjectStep orZero_Num_Suc)

lemma num_stateStep:
  "v \<noteq> ''__proto__'' \<Longrightarrow> orZero (getProp cs v) = Num m \<Longrightarrow>
   orZero (getProp (stateStep cs b) v) =
     Num (m + (if v \<in> normState ` set (elems (bans b)) then 1 else 0))"
  by (simp add: getProp_stateStep orZero_Num_Suc)

lemma num_districtStep:
  "v \<noteq> ''__proto__'' \<Longrightarrow> orZero (getProp cs v) = Num m \<Longrightarrow>
   orZero (getProp (districtStep cs b) v) =
     Num (m + (if v \<in> district ` set (elems (bans b)) then 1 else 0))"
  by (simp add: getProp_districtStep orZero_Num_Suc)

lemma stateStep_untouched:
  "v \<notin> normState ` set (elems (bans b)) \<Longrightarrow> stateStep cs b v = cs v"
  by (cases "bans b") (simp_all add: stateStep_def foldl_bump_untouched set_newSet)

text \<open>A loop whose callback adds one for the books with a property counts those books.\<close>

lemma num_foldl_step:
  assumes "\<And>cs b m. orZero (getProp cs v) = Num m \<Longrightarrow>
             orZero (getProp (step cs b) v) = Num (m + (if P b then 1 else 0))"
    and "orZero (getProp cs v) = Num m"
  shows "orZero (getProp (foldl step cs bs) v) = Num (m + length (filter P bs))"
  using assms(2)
proof (induction bs arbitrary: cs m)
  case Nil
  then show ?case by simp
next
  case (Cons b bs)
  from assms(1) [OF Cons.prems]
  have "orZero (getProp (step cs b) v) = Num (m + (if P b then 1 else 0))" .
  from Cons.IH [OF this] show ?case by simp
qed

lemma subjectCounts_value:
  assumes "v \<notin> set objectPrototypeKeys"
  shows "orZero (getProp (subjectCounts lc st bs) v)
     = Num (length (filter (\<lambda>b. v \<in> set (elems (subjects b))) (filteredBooks lc st bs)))"
proof -
  from assms have v: "v \<noteq> ''__proto__''" using proto_is_inherited by auto
  show ?thesis
    unfolding subjectCounts_def
    using num_foldl_step [of v subjectStep "\<lambda>b. v \<in> set (elems (subjects b))" Map.empty 0,
                          OF num_subjectStep [OF v] orZero_empty [OF assms]]
    by simp
qed

lemma stateCounts_value:
  assumes "v \<notin> set objectPrototypeKeys"
  shows "orZero (getProp (stateCounts lc st bs) v)
     = Num (length (filter (\<lambda>b. v \<in> normState ` set (elems (bans b)))
                      (filteredBooks lc st bs)))"
proof -
  from assms have v: "v \<noteq> ''__proto__''" using proto_is_inherited by auto
  show ?thesis
    unfolding stateCounts_def
    using num_foldl_step [of v stateStep "\<lambda>b. v \<in> normState ` set (elems (bans b))"
                             Map.empty 0, OF num_stateStep [OF v] orZero_empty [OF assms]]
    by simp
qed

lemma districtCounts_value:
  assumes "v \<notin> set objectPrototypeKeys"
  shows "orZero (getProp (districtCounts lc st bs) v)
     = Num (length (filter (\<lambda>b. v \<in> district ` set (elems (bans b)))
                      (filteredBooks lc st bs)))"
proof -
  from assms have v: "v \<noteq> ''__proto__''" using proto_is_inherited by auto
  show ?thesis
    unfolding districtCounts_def
    using num_foldl_step [of v districtStep "\<lambda>b. v \<in> district ` set (elems (bans b))"
                             Map.empty 0, OF num_districtStep [OF v] orZero_empty [OF assms]]
    by simp
qed

lemma normState_not_Nation: "''Nation'' \<notin> normState ` set xs"
  by (auto simp: normState_def)

lemma foldl_stateStep_Nation: "foldl stateStep cs bs ''Nation'' = cs ''Nation''"
  by (induction bs arbitrary: cs) (simp_all add: stateStep_untouched normState_not_Nation)

lemma stateCounts_Nation: "stateCounts lc st bs ''Nation'' = None"
  by (simp add: stateCounts_def foldl_stateStep_Nation)

lemma DoDEA_not_inherited: "''DoDEA'' \<notin> set objectPrototypeKeys"
  by (simp add: objectPrototypeKeys_def)

subsection \<open>The filter clauses as set inclusions\<close>

lemma hasAllSubjects_iff:
  "sel \<noteq> [] \<Longrightarrow> hasAllSubjects sel b \<longleftrightarrow> set sel \<subseteq> set (elems (subjects b))"
  by (cases "subjects b"; cases sel) (auto simp: hasAllSubjects_def list_all_iff)

lemma hasAllStates_iff:
  "hasAllStates sel b \<longleftrightarrow> isArray (bans b) \<and> set sel \<subseteq> normState ` set (elems (bans b))"
  by (cases "bans b") (auto simp: hasAllStates_def list_all_iff list_ex_iff)

lemma hasSubject_iff:
  "hasSubject sel b \<longleftrightarrow>
     truthy (subjects b) \<and> set sel \<inter> set (subjectArray (subjects b)) \<noteq> {}"
  by (auto simp: hasSubject_def list_ex_iff)

section \<open>The subject clause\<close>

text \<open>
  C1 (as amended). In the book browser, for every selection with at least one selected
  subject, the callback admits a book exactly when the book's subjects array contains
  every selected subject and the book passes the other clauses; selecting Fiction and
  LGBTQ over the books A (Fiction) and B (Fiction, LGBTQ) returns only B. In the map's
  info panel the subject clause admits a book exactly when the book has at least one of
  the selected subjects.
\<close>

theorem subject_clause:
  assumes "selectedSubjects st \<noteq> []"
  shows "(filterCallback lc st b \<longleftrightarrow>
            set (selectedSubjects st) \<subseteq> set (elems (subjects b))
            \<and> filterCallback lc (st\<lparr>selectedSubjects := []\<rparr>) b)
       \<and> set (filteredBooks lc st bs) =
            {x \<in> set bs. set (selectedSubjects st) \<subseteq> set (elems (subjects x))
                          \<and> filterCallback lc (st\<lparr>selectedSubjects := []\<rparr>) x}
       \<and> filteredBooks lc (initialState\<lparr>selectedSubjects := [''Fiction'', ''LGBTQ'']\<rparr>)
            [bookA, bookB] = [bookB]
       \<and> (hasSubject sel b \<longleftrightarrow>
            truthy (subjects b) \<and> set sel \<inter> set (subjectArray (subjects b)) \<noteq> {})
       \<and> (selectedSubjects_panel p \<noteq> [] \<longrightarrow>
            panelCallback p b =
              (if hasSubject (selectedSubjects_panel p) b
               then panelCallback (p\<lparr>selectedSubjects_panel := []\<rparr>) b else Inr False))"
proof -
  have browser: "filterCallback lc st x \<longleftrightarrow>
            set (selectedSubjects st) \<subseteq> set (elems (subjects x))
            \<and> filterCallback lc (st\<lparr>selectedSubjects := []\<rparr>) x" for x
    using assms hasAllSubjects_iff [of "selectedSubjects st" x]
    by (auto simp: filterCallback_def)
  have survivors: "set (filteredBooks lc st bs) =
            {x \<in> set bs. set (selectedSubjects st) \<subseteq> set (elems (subjects x))
                          \<and> filterCallback lc (st\<lparr>selectedSubjects := []\<rparr>) x}"
    using browser by (auto simp: set_filteredBooks)
  have example: "filteredBooks lc (initialState\<lparr>selectedSubjects := [''Fiction'', ''LGBTQ'']\<rparr>)
            [bookA, bookB] = [bookB]"
    by (simp add: filteredBooks_def filterCallback_def hasAllSubjects_def example_defs)
  have panel: "selectedSubjects_panel p \<noteq> [] \<longrightarrow>
            panelCallback p b =
              (if hasSubject (selectedSubjects_panel p) b
               then panelCallback (p\<lparr>selectedSubjects_panel := []\<rparr>) b else Inr False)"
    by (simp add: panelCallback_def)
  from browser [of b] survivors example panel show ?thesis
    by (simp only: hasSubject_iff simp_thms)
qed

theorem subject_clause_witness:
  "selectedSubjects (initialState\<lparr>selectedSubjects := [''Fiction'', ''LGBTQ'']\<rparr>) \<noteq> []
   \<and> \<not> filterCallback asciiLower
          (initialState\<lparr>selectedSubjects := [''Fiction'', ''LGBTQ'']\<rparr>) bookA
   \<and> selectedSubjects_panel (examplePanel [''Fiction'', ''LGBTQ'']) \<noteq> []
   \<and> panelCallback (examplePanel [''Fiction'', ''LGBTQ'']) bookA = Inr True"
proof -
  have h: "selectedSubjects (initialState\<lparr>selectedSubjects := [''Fiction'', ''LGBTQ'']\<rparr>) \<noteq> []"
    by simp
  show ?thesis
    using subject_clause [OF h, where lc = asciiLower and b = bookA
                            and bs = "[bookA, bookB]" and sel = "[''Fiction'', ''LGBTQ'']"
                            and p = "examplePanel [''Fiction'', ''LGBTQ'']"]
    by (simp add: example_defs panelCallback_def hasSubject_def)
qed

text \<open>
  The claim as stated fails in the map's info panel: with Fiction and LGBTQ selected the
  panel keeps book A, whose subjects do not contain LGBTQ.
\<close>

theorem panel_has_any_counterexample:
  "filteredBooks_panel (examplePanel [''Fiction'', ''LGBTQ'']) = Inr [bookA, bookB]
   \<and> ''LGBTQ'' \<notin> set (elems (subjects bookA))"
  by (simp add: filteredBooks_panel_def panelCallback_def hasSubject_def example_defs)

section \<open>Facet counts of the filtered books\<close>

text \<open>
  C2 (as amended). In the book browser, for every selection and every facet value that
  is not the name of a property inherited from \<open>Object.prototype\<close>, the subject count
  (and likewise the state and the district count) of the value, read with a missing
  key as 0, is the number of books in the output of the filter whose subjects
  (respectively normalized states, districts) contain the value; it is the number of
  input books that pass the filter and contain the value, so a book that the active
  filters exclude adds nothing to the count.
\<close>

theorem facet_counts_over_filtered:
  assumes "v \<notin> set objectPrototypeKeys"
  shows "orZero (getProp (subjectCounts lc st bs) v)
     = Num (length (filter (\<lambda>b. v \<in> set (elems (subjects b))) (filteredBooks lc st bs)))
   \<and> orZero (getProp (stateCounts lc st bs) v)
     = Num (length (filter (\<lambda>b. v \<in> normState ` set (elems (bans b)))
                      (filteredBooks lc st bs)))
   \<and> orZero (getProp (districtCounts lc st bs) v)
     = Num (length (filter (\<lambda>b. v \<in> district ` set (elems (bans b)))
                      (filteredBooks lc st bs)))
   \<and> orZero (getProp (subjectCounts lc st bs) v)
     = Num (length (filter (\<lambda>b. filterCallback lc st b \<and> v \<in> set (elems (subjects b))) bs))
   \<and> orZero (getProp (stateCounts lc st bs) v)
     = Num (length (filter (\<lambda>b. filterCallback lc st b
                               \<and> v \<in> normState ` set (elems (bans b))) bs))
   \<and> orZero (getProp (districtCounts lc st bs) v)
     = Num (length (filter (\<lambda>b. filterCallback lc st b
                               \<and> v \<in> district ` set (elems (bans b))) bs))"
  by (simp only: subjectCounts_value [OF assms] stateCounts_value [OF assms]
        districtCounts_value [OF assms] length_filter_filteredBooks simp_thms)

theorem facet_counts_over_filtered_witness:
  "''Fiction'' \<notin> set objectPrototypeKeys
   \<and> orZero (getProp (subjectCounts asciiLower (initialState\<lparr>selectedSubjects := [''LGBTQ'']\<rparr>)
                        [bookA, bookB]) ''Fiction'') = Num 1
   \<and> orZero (getProp (stateCounts asciiLower (initialState\<lparr>selectedSubjects := [''LGBTQ'']\<rparr>)
                        [bookA, bookB]) ''Fiction'') = Num 0"
proof -
  have h: "''Fiction'' \<notin> set objectPrototypeKeys"
    by (simp add: objectPrototypeKeys_def)
  show ?thesis
    using h facet_counts_over_filtered
              [OF h, where lc = asciiLower
                 and st = "initialState\<lparr>selectedSubjects := [''LGBTQ'']\<rparr>"
                 and bs = "[bookA, bookB]"]
    by (simp add: filteredBooks_def filterCallback_def hasAllSubjects_def example_defs)
qed

text \<open>
  The claim as stated fails in the map's info panel, whose subject counts run over all
  books of the location: with LGBTQ selected only book B is shown, yet Fiction counts 2.
\<close>

theorem panel_counts_unfiltered_counterexample:
  "filteredBooks_panel (examplePanel [''LGBTQ'']) = Inr [bookB]
   \<and> getProp (allSubjects_counts (examplePanel [''LGBTQ''])) ''Fiction'' = Num 2"
  by (simp add: filteredBooks_panel_def panelCallback_def hasSubject_def example_defs
        allSubjects_counts_def allSubjectsStep_def bump_def setProp_def getProp_def
        orZero_def objectPrototypeKeys_def)

text \<open>
  C3 (as amended). In the book browser, for every facet value that is not the name of
  a property inherited from \<open>Object.prototype\<close>, a book of the filtered set increments
  the count of the value once if it has the value and not at all otherwise, however
  often the value repeats among its subjects or bans; where the count was the number
  \<open>m\<close> it becomes \<open>m + 1\<close>, respectively stays \<open>m\<close>. A book with subjects a, a, b adds
  exactly 1 to the count of a and exactly 1 to the count of b, and a book with two bans
  in one state adds exactly 1 to the count of that state.
\<close>

theorem book_counts_once:
  assumes "v \<notin> set objectPrototypeKeys"
  shows "getProp (subjectStep cs b) v
       = (if v \<in> set (elems (subjects b)) then plusOne (orZero (getProp cs v))
          else getProp cs v)
   \<and> getProp (stateStep cs b) v
       = (if v \<in> normState ` set (elems (bans b)) then plusOne (orZero (getProp cs v))
          else getProp cs v)
   \<and> getProp (districtStep cs b) v
       = (if v \<in> district ` set (elems (bans b)) then plusOne (orZero (getProp cs v))
          else getProp cs v)
   \<and> (orZero (getProp cs v) = Num m \<longrightarrow>
        orZero (getProp (subjectStep cs b) v)
          = Num (m + (if v \<in> set (elems (subjects b)) then 1 else 0))
        \<and> orZero (getProp (stateStep cs b) v)
          = Num (m + (if v \<in> normState ` set (elems (bans b)) then 1 else 0))
        \<and> orZero (getProp (districtStep cs b) v)
          = Num (m + (if v \<in> district ` set (elems (bans b)) then 1 else 0)))
   \<and> (orZero (getProp cs ''a'') = Num m \<longrightarrow>
        orZero (getProp (subjectStep cs (mkBook i (Arr [''a'', ''a'', ''b'']) bf)) ''a'')
          = Num (m + 1))
   \<and> (orZero (getProp cs ''b'') = Num m \<longrightarrow>
        orZero (getProp (subjectStep cs (mkBook i (Arr [''a'', ''a'', ''b'']) bf)) ''b'')
          = Num (m + 1))
   \<and> (v = normState (mkBan s d1) \<and> orZero (getProp cs v) = Num m \<longrightarrow>
        orZero (getProp (stateStep cs (mkBook i sf (Arr [mkBan s d1, mkBan s d2]))) v)
          = Num (m + 1))"
proof -
  from assms have v: "v \<noteq> ''__proto__''" using proto_is_inherited by auto
  have a: "orZero (getProp cs ''a'') = Num m \<longrightarrow>
        orZero (getProp (subjectStep cs (mkBook i (Arr [''a'', ''a'', ''b'']) bf)) ''a'')
          = Num (m + 1)"
    using num_subjectStep [of "''a''" cs m "mkBook i (Arr [''a'', ''a'', ''b'']) bf"]
    by (simp add: mkBook_def)
  have b: "orZero (getProp cs ''b'') = Num m \<longrightarrow>
        orZero (getProp (subjectStep cs (mkBook i (Arr [''a'', ''a'', ''b'']) bf)) ''b'')
          = Num (m + 1)"
    using num_subjectStep [of "''b''" cs m "mkBook i (Arr [''a'', ''a'', ''b'']) bf"]
    by (simp add: mkBook_def)
  have twice: "v = normState (mkBan s d1) \<and> orZero (getProp cs v) = Num m \<longrightarrow>
        orZero (getProp (stateStep cs (mkBook i sf (Arr [mkBan s d1, mkBan s d2]))) v)
          = Num (m + 1)"
  proof
    assume h: "v = normState (mkBan s d1) \<and> orZero (getProp cs v) = Num m"
    let ?bk = "mkBook i sf (Arr [mkBan s d1, mkBan s d2])"
    from h have "v \<in> normState ` set (elems (bans ?bk))"
      by (simp add: mkBook_def)
    moreover from h have "orZero (getProp (stateStep cs ?bk) v)
        = Num (m + (if v \<in> normState ` set (elems (bans ?bk)) then 1 else 0))"
      using num_stateStep [OF v, of cs m ?bk] by blast
    ultimately show "orZero (getProp (stateStep cs ?bk) v) = Num (m + 1)"
      by simp
  qed
  from a b twice show ?thesis
    by (simp add: getProp_subjectStep [OF v] getProp_stateStep [OF v]
          getProp_districtStep [OF v] orZero_Num_Suc)
qed

theorem book_counts_once_witness:
  "''Texas'' \<notin> set objectPrototypeKeys
   \<and> orZero (getProp Map.empty ''Texas'') = Num 0
   \<and> orZero (getProp Map.empty ''a'') = Num 0
   \<and> orZero (getProp Map.empty ''b'') = Num 0
   \<and> normState (mkBan ''Texas'' ''d1'') = ''Texas''
   \<and> orZero (getProp (subjectStep Map.empty
                        (mkBook ''D'' (Arr [''a'', ''a'', ''b''])
                           (Arr [mkBan ''Texas'' ''d1'', mkBan ''Texas'' ''d2''])))
               ''a'') = Num 1
   \<and> orZero (getProp (subjectStep Map.empty
                        (mkBook ''D'' (Arr [''a'', ''a'', ''b''])
                           (Arr [mkBan ''Texas'' ''d1'', mkBan ''Texas'' ''d2''])))
               ''b'') = Num 1
   \<and> orZero (getProp (stateStep Map.empty
                        (mkBook ''D'' (Arr [''a'', ''a'', ''b''])
                           (Arr [mkBan ''Texas'' ''d1'', mkBan ''Texas'' ''d2''])))
               ''Texas'') = Num 1"
proof -
  have h: "''Texas'' \<notin> set objectPrototypeKeys"
    by (simp add: objectPrototypeKeys_def)
  have z: "orZero (getProp Map.empty ''Texas'') = Num 0"
    "orZero (getProp Map.empty ''a'') = Num 0" "orZero (getProp Map.empty ''b'') = Num 0"
    by (simp_all add: getProp_def orZero_def objectPrototypeKeys_def)
  show ?thesis
    using h z
      book_counts_once [OF h, where cs = Map.empty and m = 0 and i = "''D''"
          and b = "mkBook ''D'' (Arr [''a'', ''a'', ''b''])
                     (Arr [mkBan ''Texas'' ''d1'', mkBan ''Texas'' ''d2''])"
          and bf = "Arr [mkBan ''Texas'' ''d1'', mkBan ''Texas'' ''d2'']"
          and s = "''Texas''" and ?d1.0 = "''d1''" and ?d2.0 = "''d2''"
          and sf = "Arr [''a'', ''a'', ''b'']"]
    by (simp add: orZero_Num_Suc mkBook_def mkBan_def normState_def)
qed

text \<open>
  The claim as stated fails in the map's info panel, whose counting loop has no
  deduplication: a book with subjects a, a, b adds 2 to the count of a.
\<close>

theorem panel_counts_occurrences_counterexample:
  "getProp (allSubjectsStep Map.empty (mkBook ''D'' (Arr [''a'', ''a'', ''b'']) Absent)) ''a''
     = Num 2"
  by (simp add: allSubjectsStep_def bump_def setProp_def getProp_def orZero_def mkBook_def
        objectPrototypeKeys_def)

section \<open>The state label of military schools\<close>

text \<open>
  C4. A book with a ban whose raw state is Nation is counted under the state value
  DoDEA and never under Nation, and a state selection of DoDEA matches the book: the
  state clause compares the selected values with the states of the bans after mapping
  Nation to DoDEA, so that selecting Nation itself matches no book.
\<close>

theorem nation_is_DoDEA:
  assumes "bans b = Arr bs" and "bn \<in> set bs" and "state bn = ''Nation''"
  shows "getProp (stateStep cs b) ''DoDEA'' = plusOne (orZero (getProp cs ''DoDEA''))
       \<and> (orZero (getProp cs ''DoDEA'') = Num m \<longrightarrow>
            orZero (getProp (stateStep cs b) ''DoDEA'') = Num (m + 1))
       \<and> getProp (stateStep cs b) ''Nation'' = getProp cs ''Nation''
       \<and> stateCounts lc st books ''Nation'' = None
       \<and> (b \<in> set (filteredBooks lc st books) \<longrightarrow>
            orZero (getProp (stateCounts lc st books) ''DoDEA'')
              = Num (length (filter (\<lambda>x. ''DoDEA'' \<in> normState ` set (elems (bans x)))
                               (filteredBooks lc st books)))
            \<and> 1 \<le> length (filter (\<lambda>x. ''DoDEA'' \<in> normState ` set (elems (bans x)))
                           (filteredBooks lc st books)))
       \<and> hasAllStates [''DoDEA''] b
       \<and> (hasAllStates sel b \<longleftrightarrow> hasAllStates (removeAll ''DoDEA'' sel) b)
       \<and> filterCallback lc (initialState\<lparr>selectedStates := [''DoDEA'']\<rparr>) b
       \<and> (hasAllStates sel b' \<longleftrightarrow>
            isArray (bans b') \<and> set sel \<subseteq> normState ` set (elems (bans b')))
       \<and> \<not> hasAllStates [''Nation''] b'"
proof -
  have mem: "''DoDEA'' \<in> normState ` set (elems (bans b))"
    using assms by (force simp: normState_def)
  have notN: "''Nation'' \<notin> normState ` set (elems (bans x))" for x
    by (rule normState_not_Nation)
  have counted: "getProp (stateStep cs b) ''DoDEA'' = plusOne (orZero (getProp cs ''DoDEA''))"
    using mem by (simp add: getProp_stateStep)
  have number: "orZero (getProp cs ''DoDEA'') = Num m \<longrightarrow>
            orZero (getProp (stateStep cs b) ''DoDEA'') = Num (m + 1)"
    using mem num_stateStep [of "''DoDEA''" cs m b] by simp
  have never: "getProp (stateStep cs b) ''Nation'' = getProp cs ''Nation''"
    using notN [of b] by (simp add: getProp_stateStep)
  have shown: "b \<in> set (filteredBooks lc st books) \<longrightarrow>
            orZero (getProp (stateCounts lc st books) ''DoDEA'')
              = Num (length (filter (\<lambda>x. ''DoDEA'' \<in> normState ` set (elems (bans x)))
                               (filteredBooks lc st books)))
            \<and> 1 \<le> length (filter (\<lambda>x. ''DoDEA'' \<in> normState ` set (elems (bans x)))
                           (filteredBooks lc st books))"
  proof
    assume "b \<in> set (filteredBooks lc st books)"
    with mem have "filter (\<lambda>x. ''DoDEA'' \<in> normState ` set (elems (bans x)))
                     (filteredBooks lc st books) \<noteq> []"
      by (auto simp: filter_empty_conv)
    then have "1 \<le> length (filter (\<lambda>x. ''DoDEA'' \<in> normState ` set (elems (bans x)))
                           (filteredBooks lc st books))"
      by (simp add: Suc_le_eq)
    then show "orZero (getProp (stateCounts lc st books) ''DoDEA'')
              = Num (length (filter (\<lambda>x. ''DoDEA'' \<in> normState ` set (elems (bans x)))
                               (filteredBooks lc st books)))
            \<and> 1 \<le> length (filter (\<lambda>x. ''DoDEA'' \<in> normState ` set (elems (bans x)))
                           (filteredBooks lc st books))"
      by (simp only: stateCounts_value [OF DoDEA_not_inherited] simp_thms)
  qed
  have single: "hasAllStates [''DoDEA''] b"
    using mem assms(1) by (simp add: hasAllStates_iff)
  have among: "hasAllStates sel b \<longleftrightarrow> hasAllStates (removeAll ''DoDEA'' sel) b"
    using mem assms(1) by (auto simp: hasAllStates_iff)
  have passes: "filterCallback lc (initialState\<lparr>selectedStates := [''DoDEA'']\<rparr>) b"
    using single by (simp add: filterCallback_def initialState_def)
  have raw: "\<not> hasAllStates [''Nation''] b'"
    using notN [of b'] by (simp add: hasAllStates_iff)
  from counted number never shown single among passes raw show ?thesis
    by (simp only: stateCounts_Nation hasAllStates_iff [of sel b'] simp_thms)
qed

theorem nation_is_DoDEA_witness:
  "bans (mkBook ''N'' Absent (Arr [mkBan ''Nation'' ''Base''])) = Arr [mkBan ''Nation'' ''Base'']
   \<and> mkBan ''Nation'' ''Base'' \<in> set [mkBan ''Nation'' ''Base'']
   \<and> state (mkBan ''Nation'' ''Base'') = ''Nation''
   \<and> orZero (getProp Map.empty ''DoDEA'') = Num 0
   \<and> orZero (getProp (stateStep Map.empty (mkBook ''N'' Absent (Arr [mkBan ''Nation'' ''Base''])))
               ''DoDEA'') = Num 1
   \<and> filterCallback asciiLower (initialState\<lparr>selectedStates := [''DoDEA'']\<rparr>)
        (mkBook ''N'' Absent (Arr [mkBan ''Nation'' ''Base'']))
   \<and> mkBook ''N'' Absent (Arr [mkBan ''Nation'' ''Base''])
        \<in> set (filteredBooks asciiLower initialState
                 [mkBook ''N'' Absent (Arr [mkBan ''Nation'' ''Base''])])
   \<and> 1 \<le> length (filter (\<lambda>x. ''DoDEA'' \<in> normState ` set (elems (bans x)))
                   (filteredBooks asciiLower initialState
                      [mkBook ''N'' Absent (Arr [mkBan ''Nation'' ''Base''])]))"
proof -
  have h1: "bans (mkBook ''N'' Absent (Arr [mkBan ''Nation'' ''Base'']))
              = Arr [mkBan ''Nation'' ''Base'']"
    by (simp add: mkBook_def)
  have h2: "mkBan ''Nation'' ''Base'' \<in> set [mkBan ''Nation'' ''Base'']"
    by simp
  have h3: "state (mkBan ''Nation'' ''Base'') = ''Nation''"
    by (simp add: mkBan_def)
  have h4: "mkBook ''N'' Absent (Arr [mkBan ''Nation'' ''Base''])
        \<in> set (filteredBooks asciiLower initialState
                 [mkBook ''N'' Absent (Arr [mkBan ''Nation'' ''Base''])])"
    by (simp add: set_filteredBooks filterCallback_def initialState_def)
  have h5: "orZero (getProp Map.empty ''DoDEA'') = Num 0"
    by (simp add: orZero_empty DoDEA_not_inherited)
  show ?thesis
    using h1 h2 h3 h4 h5
      nation_is_DoDEA [OF h1 h2 h3, where cs = Map.empty and m = 0 and lc = asciiLower
                         and st = initialState
                         and books = "[mkBook ''N'' Absent (Arr [mkBan ''Nation'' ''Base''])]"
                         and sel = "[]" and b' = bookA]
    by (simp add: orZero_Num_Suc)
qed

section \<open>Pagination\<close>

lemma ceiling_div_100: "\<lceil>real n / real itemsPerPage\<rceil> = (int n + 99) div 100"
proof -
  have "\<lceil>real n / real itemsPerPage\<rceil> = \<lceil>real_of_int (int n) / real_of_int 100\<rceil>"
    by (simp add: itemsPerPage_def)
  also have "\<dots> = - (- int n div 100)"
    by (rule ceiling_divide_eq_div)
  also have "\<dots> = (int n + 99) div 100"
    by linarith
  finally show ?thesis .
qed

text \<open>A slice of \<open>m\<close> elements from a start inside or beyond the array.\<close>

lemma slice_page:
  assumes "0 \<le> start"
  shows "slice xs start (start + int m) = take m (drop (nat start) xs)"
proof -
  let ?len = "int (length xs)"
  consider (inside) "start + int m \<le> ?len"
    | (partial) "start \<le> ?len" "?len < start + int m"
    | (beyond) "?len < start"
    by linarith
  then show ?thesis
  proof cases
    case inside
    then have "nat (start + int m - start) = m" by simp
    with inside assms show ?thesis
      by (simp add: slice_def Let_def min_def)
  next
    case partial
    then have "length (drop (nat start) xs) \<le> nat (?len - start)"
      and "length (drop (nat start) xs) \<le> m"
      using assms by auto
    then have "take (nat (?len - start)) (drop (nat start) xs) = take m (drop (nat start) xs)"
      by simp
    with partial assms show ?thesis
      by (simp add: slice_def Let_def min_def)
  next
    case beyond
    then show ?thesis
      using assms by (simp add: slice_def Let_def min_def)
  qed
qed

lemma paginated_take_drop:
  "1 \<le> currentPage st \<Longrightarrow>
   paginatedBooks lc st bs
     = take 100 (drop (nat ((currentPage st - 1) * 100)) (filteredBooks lc st bs))"
  using slice_page [of "(currentPage st - 1) * 100" "filteredBooks lc st bs" 100]
  by (simp add: paginatedBooks_def Let_def itemsPerPage_def)

lemma length_filteredBooks:
  "length (filteredBooks lc st bs) = length (filter (filterCallback lc st) bs)"
  by (metis mset_filteredBooks size_mset)

text \<open>
  C6. With \<open>n\<close> filtered books and 100 books per page, the number of pages is the
  ceiling of \<open>n / 100\<close>, which is 0 exactly when there is no filtered book; the slice
  of page \<open>p\<close>, counted from 1, is the filtered books from index \<open>(p - 1) * 100\<close> up to,
  not including, index \<open>p * 100\<close>; with 250 filtered books there are 3 pages and page 3
  holds exactly 50 books.
\<close>

theorem pagination:
  "totalPages lc st bs = (int (length (filteredBooks lc st bs)) + 99) div 100
   \<and> (totalPages lc st bs = 0 \<longleftrightarrow> filteredBooks lc st bs = [])
   \<and> (1 \<le> currentPage st \<longrightarrow>
        paginatedBooks lc st bs
          = take 100 (drop (nat ((currentPage st - 1) * 100)) (filteredBooks lc st bs)))
   \<and> (length (filteredBooks lc st bs) = 250 \<longrightarrow>
        totalPages lc st bs = 3
        \<and> (currentPage st = 3 \<longrightarrow> length (paginatedBooks lc st bs) = 50))"
proof -
  let ?n = "length (filteredBooks lc st bs)"
  have tp: "totalPages lc st bs = (int ?n + 99) div 100"
    by (simp add: totalPages_def ceiling_div_100)
  have "(int ?n + 99) div 100 = 0 \<longleftrightarrow> ?n = 0"
    by linarith
  then have zero: "totalPages lc st bs = 0 \<longleftrightarrow> filteredBooks lc st bs = []"
    by (simp add: tp)
  have page: "1 \<le> currentPage st \<longrightarrow>
        paginatedBooks lc st bs
          = take 100 (drop (nat ((currentPage st - 1) * 100)) (filteredBooks lc st bs))"
    by (simp add: paginated_take_drop)
  have ex: "?n = 250 \<longrightarrow>
        totalPages lc st bs = 3
        \<and> (currentPage st = 3 \<longrightarrow> length (paginatedBooks lc st bs) = 50)"
  proof
    assume n: "?n = 250"
    have "totalPages lc st bs = 3" by (simp add: tp n)
    moreover have "length (paginatedBooks lc st bs) = 50" if "currentPage st = 3"
      using that n by (simp add: paginated_take_drop)
    ultimately show "totalPages lc st bs = 3
        \<and> (currentPage st = 3 \<longrightarrow> length (paginatedBooks lc st bs) = 50)"
      by simp
  qed
  from tp zero page ex show ?thesis by (simp only: simp_thms)
qed

theorem pagination_witness:
  "1 \<le> currentPage (initialState\<lparr>currentPage := 3\<rparr>)
   \<and> currentPage (initialState\<lparr>currentPage := 3\<rparr>) = 3
   \<and> length (filteredBooks asciiLower (initialState\<lparr>currentPage := 3\<rparr>) (replicate 250 bookA)) = 250
   \<and> totalPages asciiLower (initialState\<lparr>currentPage := 3\<rparr>) (replicate 250 bookA) = 3
   \<and> length (paginatedBooks asciiLower (initialState\<lparr>currentPage := 3\<rparr>) (replicate 250 bookA)) = 50"
proof -
  have "filterCallback asciiLower (initialState\<lparr>currentPage := 3\<rparr>) bookA"
    by (simp add: filterCallback_def initialState_def)
  then have "length (filteredBooks asciiLower (initialState\<lparr>currentPage := 3\<rparr>) (replicate 250 bookA))
               = 250"
    by (simp add: length_filteredBooks)
  then show ?thesis
    using pagination [where lc = asciiLower and st = "initialState\<lparr>currentPage := 3\<rparr>"
                        and bs = "replicate 250 bookA"]
    by simp
qed

text \<open>
  C7. After each action that changes the filter (toggling or removing a subject, a
  state or a district, typing in the search box, clearing the filters) the current
  page is 1, from every selection state.
\<close>

theorem filter_change_resets_page: "currentPage (applyOp op st) = 1"
  by (cases op)
     (simp_all add: toggleSubject_def toggleState_def toggleDistrict_def removeSubject_def
        removeState_def removeDistrict_def inputSearch_def clearFilters_def resetPage_def)

theorem filter_change_resets_page_witness:
  "currentPage (applyOp (ToggleSubject ''Fiction'') (initialState\<lparr>currentPage := 7\<rparr>)) = 1
   \<and> selectedSubjects (applyOp (ToggleSubject ''Fiction'') (initialState\<lparr>currentPage := 7\<rparr>))
       = [''Fiction'']"
  using filter_change_resets_page [of "ToggleSubject ''Fiction''"
                                      "initialState\<lparr>currentPage := 7\<rparr>"]
  by (simp add: toggleSubject_def toggle_def resetPage_def initialState_def)

section \<open>The subject-by-geography report\<close>

lemma analyzeBook_skip:
  "\<not> isArray (subjects b) \<or> \<not> isArray (bans b) \<Longrightarrow> analyzeBook sd b = Inr sd"
  by (auto simp: analyzeBook_def)

lemma forEachE_append:
  "forEachE f s (xs @ ys) =
     (case forEachE f s xs of Inl e \<Rightarrow> Inl e | Inr s' \<Rightarrow> forEachE f s' ys)"
  by (induction xs arbitrary: s) (auto split: sum.splits)

lemma forEachE_skip:
  assumes "\<And>s. f s x = Inr s"
  shows "forEachE f s (xs @ x # ys) = forEachE f s (xs @ ys)"
  by (simp add: forEachE_append assms split: sum.splits)

text \<open>
  With an array of subjects, even an empty one, the same two ban events are counted.
\<close>

lemma analyzeData_counts_bans:
  "map_sum id (\<lambda>sd. map_option s_totalBans (sd ''Texas''))
     (analyzeData [mkBook ''s'' (Arr []) (Arr [mkBan ''Texas'' ''d1'', mkBan ''Texas'' ''d2''])])
     = Inr (Some 2)"
  by (simp add: analyzeData_def analyzeBook_def analyzeBan_def mkBook_def mkBan_def
        newState_def newDistrict_def Let_def objectPrototypeKeys_def)

text \<open>
  A state that names an inherited property ends the report with a TypeError.
\<close>

lemma analyzeData_inherited_state:
  "analyzeData [mkBook ''s'' (Arr []) (Arr [mkBan ''constructor'' ''d1''])] = Inl TypeError"
  by (simp add: analyzeData_def analyzeBook_def analyzeBan_def mkBook_def mkBan_def
        Let_def objectPrototypeKeys_def)

text \<open>
  C10. In \<open>analyzeData\<close> a book whose \<open>subjects\<close> is absent or not an array, and likewise
  a book whose \<open>bans\<close> is absent or not an array, leaves the result as it was: the
  report is the one of the list without the book, so none of its ban events is added
  to the total of any state or district.
\<close>

theorem analyzeData_skips_book:
  assumes "\<not> isArray (subjects b) \<or> \<not> isArray (bans b)"
  shows "analyzeBook sd b = Inr sd
       \<and> analyzeData (pre @ b # post) = analyzeData (pre @ post)"
  using assms by (simp add: analyzeData_def analyzeBook_skip forEachE_skip)

theorem analyzeData_skips_book_witness:
  "\<not> isArray (subjects (mkBook ''s'' (Scalar ''Fiction'')
                          (Arr [mkBan ''Texas'' ''d1'', mkBan ''Texas'' ''d2''])))
   \<and> analyzeData ([] @ mkBook ''s'' (Scalar ''Fiction'')
                          (Arr [mkBan ''Texas'' ''d1'', mkBan ''Texas'' ''d2'']) # [])
        = Inr Map.empty"
proof -
  have h: "\<not> isArray (subjects (mkBook ''s'' (Scalar ''Fiction'')
                           (Arr [mkBan ''Texas'' ''d1'', mkBan ''Texas'' ''d2''])))
    \<or> \<not> isArray (bans (mkBook ''s'' (Scalar ''Fiction'')
                         (Arr [mkBan ''Texas'' ''d1'', mkBan ''Texas'' ''d2''])))"
    by (simp add: mkBook_def)
  show ?thesis
    using analyzeData_skips_book [OF h, where sd = Map.empty and pre = "[]" and post = "[]"]
    by (simp add: analyzeData_def mkBook_def)
qed

end
